theory Spec2Isabelle
  imports Main "HOL-Library.Word"
begin

section \<open>Go values\<close>

text \<open>
  A Go \<open>byte\<close> is an unsigned 8-bit integer and an \<open>int32\<close> a signed 32-bit one; a Go
  \<open>string\<close> is a sequence of bytes, here \<open>string\<close>. A slice is a list. A pointer is
  an \<open>option\<close>: \<open>None\<close> is the nil pointer and \<open>Some v\<close> points to \<open>v\<close>.
\<close>

type_synonym byte = "8 word"
type_synonym int32 = "32 word"

text \<open>
  A value of the interface type \<open>any\<close> is nil or carries a dynamic type with a value of
  that type. The dynamic types this package itself stores are \<open>string\<close> and \<open>int32\<close>;
  a value of any other dynamic type is kept opaque. Two interface values are equal when
  they have the same dynamic type and equal values.
\<close>

datatype any = any_nil | any_string string | any_int32 int32 | any_other nat

section \<open>jsonrpc.go\<close>

subsection \<open>Method names\<close>

definition MethodSend :: string where
  "MethodSend = ''tasks/send''"

definition MethodGet :: string where
  "MethodGet = ''tasks/get''"

definition MethodCancel :: string where
  "MethodCancel = ''tasks/cancel''"

definition MethodPushNotificationSet :: string where
  "MethodPushNotificationSet = ''tasks/pushNotification/set''"

definition MethodPushNotificationGet :: string where
  "MethodPushNotificationGet = ''tasks/pushNotification/get''"

definition MethodSendSubscribe :: string where
  "MethodSendSubscribe = ''tasks/sendSubscribe''"

definition MethodResubscribe :: string where
  "MethodResubscribe = ''tasks/resubscribe''"

subsection \<open>Request identifiers\<close>

text \<open>
  \<open>type id struct { any }\<close> with the alias \<open>type ID = id\<close>: a struct whose only field
  is the embedded interface value.
\<close>

record ID =
  any :: any

text \<open>
  \<open>func NewID[T string | int32](v T) id\<close>: the type parameter ranges over the two types
  of its constraint, so an argument is a \<open>string\<close> or an \<open>int32\<close>.
\<close>

datatype NewID_arg = T_string string | T_int32 int32

fun NewID :: "NewID_arg \<Rightarrow> ID" where
  "NewID (T_string v) = \<lparr>any = any_string v\<rparr>"
| "NewID (T_int32 v) = \<lparr>any = any_int32 v\<rparr>"

text \<open>The dynamic type of an interface value, as a Go type switch reads it.\<close>

fun holds_string :: "any \<Rightarrow> bool" where
  "holds_string (any_string s) = True"
| "holds_string _ = False"

fun holds_int32 :: "any \<Rightarrow> bool" where
  "holds_int32 (any_int32 n) = True"
| "holds_int32 _ = False"

text \<open>
  \<open>NewID\<close> stores a Go string as it is, and a Go string is any sequence of bytes. A
  string is UTF-8 when its bytes are a sequence of well-formed UTF-8 encodings
  (RFC 3629, the test of Go's \<open>utf8.ValidString\<close>): a byte \<open>00..7F\<close>; a lead byte
  \<open>C2..DF\<close> with one continuation byte; \<open>E0..EF\<close> with two; \<open>F0..F4\<close> with three. A
  continuation byte is in \<open>80..BF\<close>, and the first one is narrowed after the lead
  bytes \<open>E0\<close> (\<open>A0..BF\<close>, no overlong form), \<open>ED\<close> (\<open>80..9F\<close>, no surrogate), \<open>F0\<close>
  (\<open>90..BF\<close>, no overlong form) and \<open>F4\<close> (\<open>80..8F\<close>, nothing above U+10FFFF).
\<close>

definition in_range :: "nat \<Rightarrow> nat \<Rightarrow> nat \<Rightarrow> bool" where
  "in_range lo hi b = (lo \<le> b \<and> b \<le> hi)"

definition first_continuation_lo :: "nat \<Rightarrow> nat" where
  "first_continuation_lo lead = (if lead = 0xE0 then 0xA0 else if lead = 0xF0 then 0x90 else 0x80)"

definition first_continuation_hi :: "nat \<Rightarrow> nat" where
  "first_continuation_hi lead = (if lead = 0xED then 0x9F else if lead = 0xF4 then 0x8F else 0xBF)"

fun valid_utf8_bytes :: "nat list \<Rightarrow> bool" where
  "valid_utf8_bytes [] = True"
| "valid_utf8_bytes (b0 # bs) =
     (if b0 \<le> 0x7F then valid_utf8_bytes bs
      else if in_range 0xC2 0xDF b0 then
        (case bs of
           b1 # r \<Rightarrow> in_range 0x80 0xBF b1 \<and> valid_utf8_bytes r
         | _ \<Rightarrow> False)
      else if in_range 0xE0 0xEF b0 then
        (case bs of
           b1 # b2 # r \<Rightarrow>
             in_range (first_continuation_lo b0) (first_continuation_hi b0) b1
             \<and> in_range 0x80 0xBF b2 \<and> valid_utf8_bytes r
         | _ \<Rightarrow> False)
      else if in_range 0xF0 0xF4 b0 then
        (case bs of
           b1 # b2 # b3 # r \<Rightarrow>
             in_range (first_continuation_lo b0) (first_continuation_hi b0) b1
             \<and> in_range 0x80 0xBF b2 \<and> in_range 0x80 0xBF b3 \<and> valid_utf8_bytes r
         | _ \<Rightarrow> False)
      else False)"

definition valid_utf8 :: "string \<Rightarrow> bool" where
  "valid_utf8 s = valid_utf8_bytes (map of_char s)"

text \<open>The interface value holds a string, and the string is UTF-8.\<close>

fun holds_utf8_string :: "any \<Rightarrow> bool" where
  "holds_utf8_string (any_string s) = valid_utf8 s"
| "holds_utf8_string _ = False"

text \<open>
  \<open>func (i id) MarshalJSON() ([]byte, error) { return sonic.ConfigDefault.Marshal(&i) }\<close>

  \<open>sonic.ConfigDefault.Marshal\<close> is the encoder of the imported library
  \<open>github.com/bytedance/sonic\<close>, which keeps the contract of \<open>encoding/json\<close>: a value
  whose type implements \<open>json.Marshaler\<close> is encoded by calling its \<open>MarshalJSON\<close>
  method, and the bytes that the method returns are then checked by the encoder. The
  method is declared on the value receiver \<open>id\<close>, so it is in the method set of \<open>*id\<close>,
  the type of the argument \<open>&i\<close>: the encoder calls \<open>i.MarshalJSON()\<close>.

  The encoder's check of the returned bytes is the parameter \<open>check\<close>. Every call
  takes one unit of fuel, and \<open>None\<close> says that the call has not returned within the
  fuel given.
\<close>

datatype error = EncoderError string

fun MarshalJSON :: "(byte list \<Rightarrow> error + byte list) \<Rightarrow> nat \<Rightarrow> ID \<Rightarrow> (error + byte list) option"
  and sonic_Marshal :: "(byte list \<Rightarrow> error + byte list) \<Rightarrow> nat \<Rightarrow> ID \<Rightarrow> (error + byte list) option"
where
  "MarshalJSON check 0 i = None"
| "MarshalJSON check (Suc fuel) i = sonic_Marshal check fuel i"
| "sonic_Marshal check 0 i = None"
| "sonic_Marshal check (Suc fuel) i =
     (case MarshalJSON check fuel i of
        None \<Rightarrow> None
      | Some (Inl e) \<Rightarrow> Some (Inl e)
      | Some (Inr out) \<Rightarrow> Some (check out))"

subsection \<open>Messages\<close>

record JSONRPCMessage =
  JSONRPC :: string
  ID :: ID

definition NewJSONRPCMessage :: "ID \<Rightarrow> JSONRPCMessage" where
  "NewJSONRPCMessage id' = \<lparr>JSONRPC = ''2.0'', ID = id'\<rparr>"

subsection \<open>Errors\<close>

definition JSONParseErrorCode :: int where
  "JSONParseErrorCode = - 32700"

definition InvalidRequestErrorCode :: int where
  "InvalidRequestErrorCode = - 32600"

definition MethodNotFoundErrorCode :: int where
  "MethodNotFoundErrorCode = - 32601"

definition InvalidParamsErrorCode :: int where
  "InvalidParamsErrorCode = - 32602"

definition InternalErrorCode :: int where
  "InternalErrorCode = - 32603"

definition TaskNotFoundErrorCode :: int where
  "TaskNotFoundErrorCode = - 32001"

definition TaskNotCancelableErrorCode :: int where
  "TaskNotCancelableErrorCode = - 32002"

definition PushNotificationNotSupportedErrorCode :: int where
  "PushNotificationNotSupportedErrorCode = - 32003"

definition UnsupportedOperationErrorCode :: int where
  "UnsupportedOperationErrorCode = - 32004"

definition ContentTypeNotSupportedErrorCode :: int where
  "ContentTypeNotSupportedErrorCode = - 32005"

text \<open>
  A composite literal leaves every field it does not name at its zero value: \<open>Data\<close>,
  of type \<open>any\<close>, is nil in each constructor below. The constructors return
  \<open>*JSONRPCError\<close>, the address of a fresh struct.
\<close>

record JSONRPCError =
  Code :: int
  Message :: string
  Data :: any

definition NewJSONParseError :: "JSONRPCError option" where
  "NewJSONParseError =
     Some \<lparr>Code = JSONParseErrorCode, Message = ''Invalid JSON payload'', Data = any_nil\<rparr>"

definition NewInvalidRequestError :: "JSONRPCError option" where
  "NewInvalidRequestError =
     Some \<lparr>Code = InvalidRequestErrorCode, Message = ''Request payload validation error'',
       Data = any_nil\<rparr>"

definition NewMethodNotFoundError :: "JSONRPCError option" where
  "NewMethodNotFoundError =
     Some \<lparr>Code = MethodNotFoundErrorCode, Message = ''Method not found'', Data = any_nil\<rparr>"

definition NewInvalidParamsError :: "JSONRPCError option" where
  "NewInvalidParamsError =
     Some \<lparr>Code = InvalidParamsErrorCode, Message = ''Invalid parameters'', Data = any_nil\<rparr>"

definition NewInternalError :: "JSONRPCError option" where
  "NewInternalError =
     Some \<lparr>Code = InternalErrorCode, Message = ''Internal error'', Data = any_nil\<rparr>"

definition NewTaskNotFoundError :: "JSONRPCError option" where
  "NewTaskNotFoundError =
     Some \<lparr>Code = TaskNotFoundErrorCode, Message = ''Task not found'', Data = any_nil\<rparr>"

definition NewTaskNotCancelableError :: "JSONRPCError option" where
  "NewTaskNotCancelableError =
     Some \<lparr>Code = TaskNotCancelableErrorCode, Message = ''Task cannot be canceled'',
       Data = any_nil\<rparr>"

definition NewPushNotificationNotSupportedError :: "JSONRPCError option" where
  "NewPushNotificationNotSupportedError =
     Some \<lparr>Code = PushNotificationNotSupportedErrorCode,
       Message = ''Push Notification is not supported'', Data = any_nil\<rparr>"

definition NewUnsupportedOperationError :: "JSONRPCError option" where
  "NewUnsupportedOperationError =
     Some \<lparr>Code = UnsupportedOperationErrorCode, Message = ''This operation is not supported'',
       Data = any_nil\<rparr>"

definition NewContentTypeNotSupportedError :: "JSONRPCError option" where
  "NewContentTypeNotSupportedError =
     Some \<lparr>Code = ContentTypeNotSupportedErrorCode, Message = ''Content type not supported'',
       Data = any_nil\<rparr>"

section \<open>The schema: task states, roles, parts, messages, artifacts\<close>

type_synonym Role = string

definition RoleUser :: Role where
  "RoleUser = ''user''"

definition RoleAgent :: Role where
  "RoleAgent = ''agent''"

type_synonym PartType = string

definition PartTypeText :: PartType where
  "PartTypeText = ''text''"

definition PartTypeFile :: PartType where
  "PartTypeFile = ''file''"

definition PartTypeData :: PartType where
  "PartTypeData = ''data''"

record Metadata =
  FileName :: "string option"
  Title :: "string option"
  Additional :: any

record Part =
  Type :: PartType
  Text :: "string option"
  Data :: any
  FileBytes :: "byte list option"
  FileURI :: "string option"
  MimeType :: "string option"
  Metadata :: "Metadata option"

record Message =
  Role :: Role
  Parts :: "Part list"

record Artifact =
  Parts :: "Part list"
  Index :: int
  Title :: string
  Labels :: any

text \<open>
  The constructors take the address of their own parameter (\<open>&text\<close>, \<open>&fileBytes\<close>,
  \<open>&mimeType\<close>, \<open>&fileName\<close>, \<open>&fileUri\<close>): a pointer that is never nil, to the
  value given. The fields a composite literal does not name are nil.
\<close>

definition NewTextPart :: "string \<Rightarrow> Part" where
  "NewTextPart text' =
     \<lparr>Type = PartTypeText, Text = Some text', Data = any_nil, FileBytes = None,
      FileURI = None, MimeType = None, Metadata = None\<rparr>"

definition NewDataPart :: "any \<Rightarrow> Part" where
  "NewDataPart data =
     \<lparr>Type = PartTypeData, Text = None, Data = data, FileBytes = None,
      FileURI = None, MimeType = None, Metadata = None\<rparr>"

definition NewFilePart :: "byte list \<Rightarrow> string \<Rightarrow> string \<Rightarrow> Part" where
  "NewFilePart fileBytes mimeType fileName =
     \<lparr>Type = PartTypeFile, Text = None, Data = any_nil, FileBytes = Some fileBytes,
      FileURI = None, MimeType = Some mimeType,
      Metadata = Some \<lparr>FileName = Some fileName, Title = None, Additional = any_nil\<rparr>\<rparr>"

definition NewFileUriPart :: "string \<Rightarrow> string \<Rightarrow> string \<Rightarrow> Part" where
  "NewFileUriPart fileUri mimeType fileName =
     \<lparr>Type = PartTypeFile, Text = None, Data = any_nil, FileBytes = None,
      FileURI = Some fileUri, MimeType = Some mimeType,
      Metadata = Some \<lparr>FileName = Some fileName, Title = None, Additional = any_nil\<rparr>\<rparr>"

text \<open>A variadic parameter \<open>parts ...Part\<close> is the slice of the arguments, in order.\<close>

definition NewUserMessage :: "Part list \<Rightarrow> Message" where
  "NewUserMessage parts = \<lparr>Role = RoleUser, Parts = parts\<rparr>"

definition NewAgentMessage :: "Part list \<Rightarrow> Message" where
  "NewAgentMessage parts = \<lparr>Role = RoleAgent, Parts = parts\<rparr>"

text \<open>
  \<open>index\<close> is a Go \<open>int\<close>, a signed machine integer. It is stored as given, with no
  arithmetic on it, so the model takes an \<open>int\<close>.
\<close>

definition NewArtifact :: "int \<Rightarrow> string \<Rightarrow> Part list \<Rightarrow> Artifact" where
  "NewArtifact index title parts =
     \<lparr>Parts = parts, Index = index, Title = title, Labels = any_nil\<rparr>"

section \<open>Populated payload fields of a part\<close>

text \<open>
  The payload fields of a \<open>Part\<close> are \<open>Text\<close>, \<open>Data\<close>, \<open>FileBytes\<close> and \<open>FileURI\<close>;
  a field is populated when it is not nil. \<open>populated_payloads\<close> lists, in the order
  of the struct's fields, the type tag that each populated payload field belongs to.
\<close>

definition populated_payloads :: "Part \<Rightarrow> PartType list" where
  "populated_payloads p =
     (if Text p \<noteq> None then [PartTypeText] else []) @
     (if Part.Data p \<noteq> any_nil then [PartTypeData] else []) @
     (if FileBytes p \<noteq> None then [PartTypeFile] else []) @
     (if FileURI p \<noteq> None then [PartTypeFile] else [])"

section \<open>Shared facts\<close>

lemma MarshalJSON_sonic_Marshal_None:
  "MarshalJSON check fuel i = None \<and> sonic_Marshal check fuel i = None"
proof (induction fuel)
  case 0
  show ?case by simp
next
  case (Suc fuel)
  then show ?case by simp
qed

lemmas error_code_defs =
  JSONParseErrorCode_def InvalidRequestErrorCode_def MethodNotFoundErrorCode_def
  InvalidParamsErrorCode_def InternalErrorCode_def TaskNotFoundErrorCode_def
  TaskNotCancelableErrorCode_def PushNotificationNotSupportedErrorCode_def
  UnsupportedOperationErrorCode_def ContentTypeNotSupportedErrorCode_def

lemmas error_constructor_defs =
  NewJSONParseError_def NewInvalidRequestError_def NewMethodNotFoundError_def
  NewInvalidParamsError_def NewInternalError_def NewTaskNotFoundError_def
  NewTaskNotCancelableError_def NewPushNotificationNotSupportedError_def
  NewUnsupportedOperationError_def NewContentTypeNotSupportedError_def

lemmas part_type_defs = PartTypeText_def PartTypeFile_def PartTypeData_def

section \<open>Request identifiers\<close>

text \<open>
  C1. The claim is that encoding an identifier made by \<open>NewID\<close> with \<open>MarshalJSON\<close> and
  decoding the bytes with \<open>UnmarshalJSON\<close> gives the identifier back. The encoding never
  produces bytes: \<open>MarshalJSON\<close> hands \<open>&i\<close> to the encoder, the encoder calls
  \<open>MarshalJSON\<close> of that value, and so on without end. Whatever the fuel, and whatever
  the identifier, the call has not returned.
\<close>

theorem MarshalJSON_NewID_never_returns:
  "MarshalJSON check fuel (NewID v) = None"
  by (simp add: MarshalJSON_sonic_Marshal_None)

text \<open>
  C3, as the claim states it: the value held by an identifier made by \<open>NewID\<close> is
  exactly one of a UTF-8 string or an \<open>int32\<close>. \<open>NewID\<close> does not check the string it is
  given: made from the one-byte string \<open>"\xff"\<close>, which is not UTF-8, the identifier holds
  that string, so it holds neither a UTF-8 string nor an \<open>int32\<close>.
\<close>

theorem NewID_string_not_utf8:
  "any (NewID (T_string [CHR 0xFF])) = any_string [CHR 0xFF]
   \<and> \<not> valid_utf8 [CHR 0xFF]
   \<and> \<not> holds_utf8_string (any (NewID (T_string [CHR 0xFF])))
   \<and> \<not> holds_int32 (any (NewID (T_string [CHR 0xFF])))"
  by (simp add: valid_utf8_def in_range_def)

text \<open>
  C3, amended: an identifier made by \<open>NewID\<close> holds the value it was made from, with the
  dynamic type of that value: a string (a byte sequence, which is UTF-8 when the string
  given is) or an \<open>int32\<close>, never both. Two such identifiers are equal exactly when they
  hold the same variant with the same value; one made from a string is never equal to one
  made from an \<open>int32\<close>.
\<close>

theorem NewID_holds_given_value:
  "any (NewID (T_string s)) = any_string s
   \<and> any (NewID (T_int32 n)) = any_int32 n
   \<and> holds_string (any (NewID (T_string s))) \<and> \<not> holds_int32 (any (NewID (T_string s)))
   \<and> holds_int32 (any (NewID (T_int32 n))) \<and> \<not> holds_string (any (NewID (T_int32 n)))
   \<and> \<not> holds_utf8_string (any (NewID (T_int32 n)))
   \<and> (valid_utf8 s \<longrightarrow> holds_utf8_string (any (NewID (T_string s))))
   \<and> (holds_string (any (NewID a)) \<noteq> holds_int32 (any (NewID a)))
   \<and> ((NewID (T_string s) = NewID (T_string s')) = (s = s'))
   \<and> ((NewID (T_int32 n) = NewID (T_int32 n')) = (n = n'))
   \<and> NewID (T_string s) \<noteq> NewID (T_int32 n)
   \<and> ((NewID a = NewID b) = (any (NewID a) = any (NewID b)))
   \<and> ((NewID a = NewID b) = (a = b))"
proof -
  have held: "(NewID a = NewID b) = (any (NewID a) = any (NewID b))"
    by (cases a; cases b) simp_all
  have args: "(NewID a = NewID b) = (a = b)"
    by (cases a; cases b) simp_all
  have variant: "holds_string (any (NewID a)) \<noteq> holds_int32 (any (NewID a))"
    by (cases a) simp_all
  show ?thesis
    using held args variant by simp
qed

theorem NewID_holds_given_value_witness:
  "valid_utf8 ''1''
   \<and> holds_utf8_string (any (NewID (T_string ''1'')))
   \<and> any (NewID (T_string ''1'')) = any_string ''1''
   \<and> any (NewID (T_int32 1)) = any_int32 1
   \<and> NewID (T_string ''1'') \<noteq> NewID (T_int32 1)"
proof -
  have v: "valid_utf8 ''1''"
    by (simp add: valid_utf8_def)
  show ?thesis
    using v NewID_holds_given_value [of "''1''" 1 "T_string ''1''" "''1''" 1 "T_int32 1"]
    by simp
qed

text \<open>
  C6. For every identifier, \<open>NewJSONRPCMessage\<close> returns a message whose \<open>JSONRPC\<close>
  field is "2.0" and whose \<open>ID\<close> field is the identifier given.
\<close>

theorem NewJSONRPCMessage_fields:
  "JSONRPC (NewJSONRPCMessage i) = ''2.0'' \<and> JSONRPCMessage.ID (NewJSONRPCMessage i) = i"
  by (simp add: NewJSONRPCMessage_def)

section \<open>Method names\<close>

text \<open>
  C5. The seven method-name constants are the seven strings of the protocol, and no two
  of them are equal.
\<close>

theorem method_names:
  "MethodSend = ''tasks/send''
   \<and> MethodGet = ''tasks/get''
   \<and> MethodCancel = ''tasks/cancel''
   \<and> MethodPushNotificationSet = ''tasks/pushNotification/set''
   \<and> MethodPushNotificationGet = ''tasks/pushNotification/get''
   \<and> MethodSendSubscribe = ''tasks/sendSubscribe''
   \<and> MethodResubscribe = ''tasks/resubscribe''
   \<and> distinct [MethodSend, MethodGet, MethodCancel, MethodPushNotificationSet,
        MethodPushNotificationGet, MethodSendSubscribe, MethodResubscribe]"
  by (simp add: MethodSend_def MethodGet_def MethodCancel_def MethodPushNotificationSet_def
      MethodPushNotificationGet_def MethodSendSubscribe_def MethodResubscribe_def)

section \<open>Errors\<close>

text \<open>
  C2. Each of the ten error constructors returns an error whose \<open>Code\<close> is the fixed
  numeric code of its kind and whose \<open>Message\<close> is the default message of that kind,
  which is not empty.
\<close>

theorem error_constructors_code_and_message:
  "map_option (\<lambda>e. (Code e, JSONRPCError.Message e)) NewJSONParseError
     = Some (- 32700, ''Invalid JSON payload'')
   \<and> map_option (\<lambda>e. (Code e, JSONRPCError.Message e)) NewInvalidRequestError
     = Some (- 32600, ''Request payload validation error'')
   \<and> map_option (\<lambda>e. (Code e, JSONRPCError.Message e)) NewMethodNotFoundError
     = Some (- 32601, ''Method not found'')
   \<and> map_option (\<lambda>e. (Code e, JSONRPCError.Message e)) NewInvalidParamsError
     = Some (- 32602, ''Invalid parameters'')
   \<and> map_option (\<lambda>e. (Code e, JSONRPCError.Message e)) NewInternalError
     = Some (- 32603, ''Internal error'')
   \<and> map_option (\<lambda>e. (Code e, JSONRPCError.Message e)) NewTaskNotFoundError
     = Some (- 32001, ''Task not found'')
   \<and> map_option (\<lambda>e. (Code e, JSONRPCError.Message e)) NewTaskNotCancelableError
     = Some (- 32002, ''Task cannot be canceled'')
   \<and> map_option (\<lambda>e. (Code e, JSONRPCError.Message e)) NewPushNotificationNotSupportedError
     = Some (- 32003, ''Push Notification is not supported'')
   \<and> map_option (\<lambda>e. (Code e, JSONRPCError.Message e)) NewUnsupportedOperationError
     = Some (- 32004, ''This operation is not supported'')
   \<and> map_option (\<lambda>e. (Code e, JSONRPCError.Message e)) NewContentTypeNotSupportedError
     = Some (- 32005, ''Content type not supported'')
   \<and> Some [] \<notin> set (map (map_option JSONRPCError.Message)
        [NewJSONParseError, NewInvalidRequestError, NewMethodNotFoundError,
         NewInvalidParamsError, NewInternalError, NewTaskNotFoundError,
         NewTaskNotCancelableError, NewPushNotificationNotSupportedError,
         NewUnsupportedOperationError, NewContentTypeNotSupportedError])"
  by (simp add: error_constructor_defs error_code_defs)

text \<open>
  C9. Every error returned by the ten error constructors has a nil \<open>Data\<close> field: no
  constructor takes a detail to attach.
\<close>

theorem error_constructors_data_nil:
  "map_option JSONRPCError.Data NewJSONParseError = Some any_nil
   \<and> map_option JSONRPCError.Data NewInvalidRequestError = Some any_nil
   \<and> map_option JSONRPCError.Data NewMethodNotFoundError = Some any_nil
   \<and> map_option JSONRPCError.Data NewInvalidParamsError = Some any_nil
   \<and> map_option JSONRPCError.Data NewInternalError = Some any_nil
   \<and> map_option JSONRPCError.Data NewTaskNotFoundError = Some any_nil
   \<and> map_option JSONRPCError.Data NewTaskNotCancelableError = Some any_nil
   \<and> map_option JSONRPCError.Data NewPushNotificationNotSupportedError = Some any_nil
   \<and> map_option JSONRPCError.Data NewUnsupportedOperationError = Some any_nil
   \<and> map_option JSONRPCError.Data NewContentTypeNotSupportedError = Some any_nil"
  by (simp add: error_constructor_defs)

section \<open>Parts\<close>

text \<open>
  C4, as the claim states it: every part made by one of the four constructors has exactly
  one payload field populated. \<open>NewDataPart\<close> stores the value it is given, and that
  value may be the nil interface value: the part made from it has no payload field
  populated.
\<close>

theorem NewDataPart_nil_no_payload:
  "populated_payloads (NewDataPart any_nil) = []
   \<and> populated_payloads (NewDataPart any_nil) \<noteq> [Type (NewDataPart any_nil)]"
  by (simp add: populated_payloads_def NewDataPart_def)

text \<open>
  C4, amended: a part made by \<open>NewTextPart\<close>, \<open>NewFilePart\<close> or \<open>NewFileUriPart\<close> has
  exactly one payload field populated, the one that its \<open>Type\<close> tag names (text, file,
  file); a part made by \<open>NewDataPart\<close> has the tag data, and exactly one payload field
  populated, \<open>Data\<close>, when the value given is not nil.
\<close>

theorem part_constructors_one_payload:
  "populated_payloads (NewTextPart t) = [Type (NewTextPart t)]
   \<and> Type (NewTextPart t) = ''text''
   \<and> populated_payloads (NewFilePart bs m n) = [Type (NewFilePart bs m n)]
   \<and> Type (NewFilePart bs m n) = ''file''
   \<and> populated_payloads (NewFileUriPart u m n) = [Type (NewFileUriPart u m n)]
   \<and> Type (NewFileUriPart u m n) = ''file''
   \<and> Type (NewDataPart d) = ''data''
   \<and> (d \<noteq> any_nil \<longrightarrow> populated_payloads (NewDataPart d) = [Type (NewDataPart d)])"
  by (simp add: populated_payloads_def NewTextPart_def NewFilePart_def NewFileUriPart_def
      NewDataPart_def part_type_defs)

theorem part_constructors_one_payload_witness:
  "any_string ''{}'' \<noteq> any_nil
   \<and> populated_payloads (NewDataPart (any_string ''{}''))
       = [Type (NewDataPart (any_string ''{}''))]"
  using part_constructors_one_payload [where d = "any_string ''{}''"] by simp

text \<open>
  C10. A file part made by \<open>NewFilePart\<close> or \<open>NewFileUriPart\<close> has a \<open>Metadata\<close> that is
  not nil, whose \<open>FileName\<close> points to the file name given, and a \<open>MimeType\<close> that is not
  nil and points to the MIME type given; its only payload field is \<open>FileBytes\<close>,
  respectively \<open>FileURI\<close>, holding the content given.
\<close>

theorem file_part_constructors_fields:
  "map_option FileName (Part.Metadata (NewFilePart bs m n)) = Some (Some n)
   \<and> MimeType (NewFilePart bs m n) = Some m
   \<and> FileBytes (NewFilePart bs m n) = Some bs
   \<and> FileURI (NewFilePart bs m n) = None
   \<and> Text (NewFilePart bs m n) = None
   \<and> Part.Data (NewFilePart bs m n) = any_nil
   \<and> map_option FileName (Part.Metadata (NewFileUriPart u m n)) = Some (Some n)
   \<and> MimeType (NewFileUriPart u m n) = Some m
   \<and> FileURI (NewFileUriPart u m n) = Some u
   \<and> FileBytes (NewFileUriPart u m n) = None
   \<and> Text (NewFileUriPart u m n) = None
   \<and> Part.Data (NewFileUriPart u m n) = any_nil"
  by (simp add: NewFilePart_def NewFileUriPart_def)

section \<open>Messages and artifacts\<close>

text \<open>
  C8. \<open>NewUserMessage\<close> returns a message with the role "user" and \<open>NewAgentMessage\<close> one
  with the role "agent", each carrying the parts given, in the order given.
\<close>

theorem message_constructors_role_and_parts:
  "Role (NewUserMessage ps) = ''user''
   \<and> Message.Parts (NewUserMessage ps) = ps
   \<and> Role (NewAgentMessage ps) = ''agent''
   \<and> Message.Parts (NewAgentMessage ps) = ps"
  by (simp add: NewUserMessage_def NewAgentMessage_def RoleUser_def RoleAgent_def)

text \<open>
  C7, as the claim states it: every artifact made by \<open>NewArtifact\<close> has a non-negative
  index. \<open>NewArtifact\<close> does not check the index it is given: from \<open>-1\<close> it makes an
  artifact whose index is \<open>-1\<close>.
\<close>

theorem NewArtifact_negative_index:
  "Index (NewArtifact (- 1) ''draft'' []) = - 1 \<and> Index (NewArtifact (- 1) ''draft'' []) < 0"
  by (simp add: NewArtifact_def)

text \<open>
  C7, amended: the index of an artifact made by \<open>NewArtifact\<close> is the index given, so it
  is non-negative when the index given is.
\<close>

theorem NewArtifact_index:
  "Index (NewArtifact index title parts) = index
   \<and> (0 \<le> index \<longrightarrow> 0 \<le> Index (NewArtifact index title parts))"
  by (simp add: NewArtifact_def)

theorem NewArtifact_index_witness:
  "(0::int) \<le> 3 \<and> Index (NewArtifact 3 ''report'' []) = 3
   \<and> 0 \<le> Index (NewArtifact 3 ''report'' [])"
  using NewArtifact_index [of 3 "''report''" "[]"] by simp

end
